theory Spec2Isabelle
  imports Main
begin

section \<open>The GitHub invitation client (utils.py)\<close>

text \<open>
  A shallow embedding of \<^verbatim>\<open>class github\<close> of \<^verbatim>\<open>utils.py\<close>: the retry wrapper
  \<^verbatim>\<open>gh_request\<close> and the four endpoint helpers built on it.

  The program talks to the outside through four library calls, which are the boundary
  of the model:
  \<^item> \<^verbatim>\<open>requests.request(...)\<close> either returns a response or raises; the source
    handles \<^verbatim>\<open>Timeout\<close> and \<^verbatim>\<open>RequestException\<close>, and these are the two ways of
    raising in the model. What the API does at each attempt is a parameter
    \<open>env\<close>: attempt number to outcome.
  \<^item> \<^verbatim>\<open>res.status_code\<close> reads the status of a response. \<^verbatim>\<open>res.json()\<close> returns the
    parsed body, or raises requests' \<^verbatim>\<open>JSONDecodeError\<close> when the body is not JSON
    (requests 2.27 and later). That
    exception is a \<^verbatim>\<open>RequestException\<close> (through \<^verbatim>\<open>InvalidJSONError\<close>) with no response
    attached, so inside the \<^verbatim>\<open>try\<close> of \<^verbatim>\<open>gh_request\<close> the handler of line 96 catches
    it; outside it leaves the function.
  \<^item> \<^verbatim>\<open>time.sleep(d)\<close> returns for \<open>d \<ge> 0\<close> and raises \<^verbatim>\<open>ValueError\<close> for \<open>d < 0\<close>.
    (A delay too large for the platform's clock is outside the model; it needs retry
    parameters far from the 3 and 1 of the constructor.)
  \<^item> \<^verbatim>\<open>json.dumps(d)\<close> returns the text of \<open>d\<close>, written \<open>json_dumps d\<close>.

  Every function returns the events it caused, in order, next to its result: requests
  sent, sleeps, log lines and printed lines. A raised exception is the result \<open>Inl\<close>.
\<close>

subsection \<open>Data\<close>

text \<open>JSON values. A dict keeps its items in insertion order, with distinct keys.\<close>

datatype json_value =
    JNull
  | JBool bool
  | JInt int
  | JStr string
  | JList "json_value list"
  | JDict "(string \<times> json_value) list"

text \<open>The text \<^verbatim>\<open>json.dumps\<close> produces for a value.\<close>

datatype body = json_dumps json_value

text \<open>
  What \<^verbatim>\<open>res.json()\<close> gives: the parsed body, or the text of the \<^verbatim>\<open>JSONDecodeError\<close>
  it raises on a body that is not JSON.
\<close>

datatype parsed =
    Parsed json_value
  | NotJSON string

text \<open>\<^verbatim>\<open>requests.Response\<close>, as far as the source reads it.\<close>

record response =
  status_code :: int
  json :: parsed

text \<open>The keyword arguments of one \<^verbatim>\<open>requests.request\<close> call.\<close>

record request =
  method_arg :: string
  url :: string
  headers :: "(string \<times> string) list"
  data :: "body option"
  timeout_arg :: int

text \<open>
  What \<^verbatim>\<open>requests.request\<close> raises: the exception's text \<^verbatim>\<open>str(e)\<close> and, for a
  \<^verbatim>\<open>RequestException\<close>, its \<^verbatim>\<open>e.response\<close>.
\<close>

datatype request_exception =
    Timeout string
  | RequestException string "response option"

datatype outcome =
    Returns response
  | Raises request_exception

text \<open>
  The exceptions that leave the functions: \<^verbatim>\<open>GithubAPIError(message, status_code,
  response)\<close>, requests' \<^verbatim>\<open>JSONDecodeError\<close> with its text, and Python's own by their
  class (\<^verbatim>\<open>KeyError\<close> with the missing key).
\<close>

datatype exn =
    GithubAPIError string "int option" "json_value option"
  | JSONDecodeError string
  | ValueError
  | KeyError string
  | TypeError

datatype event =
    Requested request
  | Slept int
  | LoggedWarning string
  | LoggedError string
  | Printed string

text \<open>The client object; \<^verbatim>\<open>__init__\<close> fixes the timeout and the retry parameters.\<close>

record github =
  auth :: string
  org :: "string option"
  timeout :: int
  max_retries :: int
  retry_delay :: int

definition github_init :: "string \<Rightarrow> string option \<Rightarrow> github" where
  "github_init auth' org' =
     \<lparr>auth = auth', org = org', timeout = 30, max_retries = 3, retry_delay = 1\<rparr>"

subsection \<open>Formatting\<close>

text \<open>\<^verbatim>\<open>str(n)\<close> of an integer, as the f-strings of the source format it.\<close>

definition digit_char :: "nat \<Rightarrow> char" where
  "digit_char d = char_of (48 + d)"

function str_nat :: "nat \<Rightarrow> string" where
  "str_nat n = (if n < 10 then [digit_char n] else str_nat (n div 10) @ [digit_char (n mod 10)])"
  by pat_completeness auto
termination
  by (relation "measure id") auto

declare str_nat.simps [simp del]

definition str_int :: "int \<Rightarrow> string" where
  "str_int i = (if i < 0 then CHR ''-'' # str_nat (nat (- i)) else str_nat (nat i))"

text \<open>\<^verbatim>\<open>str(last_exception)\<close>, where \<^verbatim>\<open>last_exception\<close> may still be \<^verbatim>\<open>None\<close>.\<close>

fun str_exception :: "request_exception option \<Rightarrow> string" where
  "str_exception None = ''None''"
| "str_exception (Some (Timeout e)) = e"
| "str_exception (Some (RequestException e r)) = e"

subsection \<open>gh_request\<close>

text \<open>
  Raising a \<^verbatim>\<open>GithubAPIError\<close>: its constructor logs the message at error level
  (lines 17-24).
\<close>

definition raise_GithubAPIError ::
  "string \<Rightarrow> int option \<Rightarrow> json_value option \<Rightarrow> event list \<times> (exn + 'a)" where
  "raise_GithubAPIError message status response' =
     ([LoggedError (''GitHub API Error: '' @ message)], Inl (GithubAPIError message status response'))"

text \<open>Events that happened before a computation come first in its trace.\<close>

definition emit :: "event list \<Rightarrow> event list \<times> 'a \<Rightarrow> event list \<times> 'a" where
  "emit evs r = (evs @ fst r, snd r)"

text \<open>The request of lines 60-70: the same at every attempt.\<close>

definition request_of :: "github \<Rightarrow> string \<Rightarrow> string \<Rightarrow> body option \<Rightarrow> request" where
  "request_of self path method' data' =
     \<lparr>method_arg = method',
      url = ''https://api.github.com'' @ path,
      headers = [(''Accept'', ''application/vnd.github+json''),
                 (''Authorization'', ''Bearer '' @ auth self),
                 (''X-GitHub-Api-Version'', ''2022-11-28'')],
      data = data',
      timeout_arg = timeout self\<rparr>"

text \<open>Lines 55-58: the warning and the sleep before a retry.\<close>

definition retry_wait :: "github \<Rightarrow> nat \<Rightarrow> int" where
  "retry_wait self attempt = retry_delay self * 2 ^ (attempt - 1)"

definition retry_warning :: "github \<Rightarrow> nat \<Rightarrow> string" where
  "retry_warning self attempt =
     ''Retrying request (attempt '' @ str_int (int attempt + 1) @ ''/''
       @ str_int (max_retries self) @ '')''"

definition before_attempt :: "github \<Rightarrow> nat \<Rightarrow> event list" where
  "before_attempt self attempt =
     (if attempt > 0
      then [LoggedWarning (retry_warning self attempt), Slept (retry_wait self attempt)]
      else [])"

text \<open>
  How the body of the \<^verbatim>\<open>try\<close> (lines 60-90) leaves one attempt: with the outcome of
  the whole call (a \<^verbatim>\<open>return\<close>, or a \<^verbatim>\<open>GithubAPIError\<close> that no handler catches),
  with \<^verbatim>\<open>continue\<close>, or with an exception that the handlers of lines 92-99 catch.
\<close>

datatype tried =
    Done "event list \<times> (exn + response)"
  | Continue
  | Caught request_exception

text \<open>
  \<^verbatim>\<open>raise GithubAPIError(message, res.status_code, res.json())\<close> (lines 75, 79, 85, 87).
  The arguments are evaluated first: on a body that is not JSON \<^verbatim>\<open>res.json()\<close> raises
  before the error is built, and that exception is one the handler of line 96 catches.
\<close>

definition raise_with_json :: "string \<Rightarrow> response \<Rightarrow> tried" where
  "raise_with_json message res =
     (case json res of
        Parsed body' \<Rightarrow> Done (raise_GithubAPIError message (Some (status_code res)) (Some body'))
      | NotJSON e \<Rightarrow> Caught (RequestException e None))"

text \<open>Lines 60-90, given what \<^verbatim>\<open>requests.request\<close> did at this attempt.\<close>

definition try_body :: "github \<Rightarrow> nat \<Rightarrow> outcome \<Rightarrow> tried" where
  "try_body self attempt out =
     (case out of
        Raises exc \<Rightarrow> Caught exc
      | Returns res \<Rightarrow>
          if 400 \<le> status_code res \<and> status_code res < 500 \<and> status_code res \<noteq> 403 then
            (if status_code res = 401 then
               raise_with_json ''Authentication failed. Please check your GitHub token'' res
             else if status_code res = 404 then
               Done ([], Inr res)
             else
               raise_with_json (''Client error: '' @ str_int (status_code res)) res)
          else if status_code res = 403 \<or> status_code res \<ge> 500 then
            (if int attempt = max_retries self - 1 then
               (if status_code res = 403 then
                  raise_with_json ''Rate limit exceeded or insufficient permissions'' res
                else
                  raise_with_json ''GitHub server error'' res)
             else Continue)
          else Done ([], Inr res))"

text \<open>
  The loop of lines 53-101 over the attempts still to make. A negative delay makes
  \<^verbatim>\<open>time.sleep\<close> raise \<^verbatim>\<open>ValueError\<close>, which no handler catches. A \<^verbatim>\<open>continue\<close> and a
  caught exception that is not the last attempt's go on with the rest; running out of
  attempts is the final \<^verbatim>\<open>raise\<close> of line 101.
\<close>

fun attempts ::
  "github \<Rightarrow> request \<Rightarrow> (nat \<Rightarrow> outcome) \<Rightarrow> nat list \<Rightarrow> request_exception option
     \<Rightarrow> event list \<times> (exn + response)" where
  "attempts self req env [] last_exception =
     raise_GithubAPIError (''All retry attempts failed: '' @ str_exception last_exception) None None"
| "attempts self req env (attempt # rest) last_exception =
     (if attempt > 0 \<and> retry_wait self attempt < 0 then
        ([LoggedWarning (retry_warning self attempt)], Inl ValueError)
      else
        emit (before_attempt self attempt @ [Requested req])
          (case try_body self attempt (env attempt) of
             Done result \<Rightarrow> result
           | Continue \<Rightarrow> attempts self req env rest last_exception
           | Caught (Timeout e) \<Rightarrow>
               if int attempt = max_retries self - 1 then
                 raise_GithubAPIError
                   (''Request timed out after '' @ str_int (timeout self) @ '' seconds'') None None
               else attempts self req env rest (Some (Timeout e))
           | Caught (RequestException e r) \<Rightarrow>
               if int attempt = max_retries self - 1 then
                 raise_GithubAPIError (''Network error: '' @ e) (map_option status_code r) None
               else attempts self req env rest (Some (RequestException e r))))"

text \<open>Line 50: the empty dict becomes no payload, anything else its JSON text.\<close>

definition payload :: "json_value \<Rightarrow> body option" where
  "payload data' = (if data' \<noteq> JDict [] then Some (json_dumps data') else None)"

text \<open>\<^verbatim>\<open>range(self.max_retries)\<close> is empty for a count that is not positive.\<close>

definition gh_request ::
  "github \<Rightarrow> string \<Rightarrow> string \<Rightarrow> json_value \<Rightarrow> (nat \<Rightarrow> outcome)
     \<Rightarrow> event list \<times> (exn + response)" where
  "gh_request self path method' data' env =
     attempts self
       (request_of self path method' (payload data')) env [0..<nat (max_retries self)] None"

subsection \<open>The endpoint helpers\<close>

definition invite_user_org ::
  "github \<Rightarrow> string \<Rightarrow> int \<Rightarrow> json_value list \<Rightarrow> string \<Rightarrow> (nat \<Rightarrow> outcome)
     \<Rightarrow> event list \<times> (exn + response)" where
  "invite_user_org self org' user teams role env =
     gh_request self (''/orgs/'' @ org' @ ''/invitations'') ''POST''
       (JDict [(''invitee_id'', JInt user), (''role'', JStr role), (''team_ids'', JList teams)])
       env"

text \<open>The defaults of the keyword arguments \<^verbatim>\<open>teams\<close> and \<^verbatim>\<open>role\<close>.\<close>

definition default_teams :: "json_value list" where
  "default_teams = []"

definition default_role :: string where
  "default_role = ''direct_member''"

text \<open>
  Python's \<^verbatim>\<open>obj[key]\<close> for a string key, on a parsed JSON value: a dict gives the
  value or \<^verbatim>\<open>KeyError\<close>, anything else \<^verbatim>\<open>TypeError\<close>.
\<close>

fun subscript :: "json_value \<Rightarrow> string \<Rightarrow> exn + json_value" where
  "subscript (JDict items) key =
     (case map_of items key of None \<Rightarrow> Inl (KeyError key) | Some v \<Rightarrow> Inr v)"
| "subscript v key = Inl TypeError"

text \<open>
  The result is a Python value: the \<^verbatim>\<open>id\<close> of the body, or \<^verbatim>\<open>None\<close>, which is
  \<open>JNull\<close>. Here \<^verbatim>\<open>res.json()\<close> is called outside any \<^verbatim>\<open>try\<close>.
\<close>

definition get_user_id ::
  "github \<Rightarrow> string \<Rightarrow> (nat \<Rightarrow> outcome) \<Rightarrow> event list \<times> (exn + json_value)" where
  "get_user_id self user env =
     (case gh_request self (''/users/'' @ user) ''GET'' (JDict []) env of
        (evs, Inl e) \<Rightarrow> (evs, Inl e)
      | (evs, Inr res) \<Rightarrow>
          if status_code res = 200 then
            (case json res of
               NotJSON e \<Rightarrow> (evs, Inl (JSONDecodeError e))
             | Parsed body' \<Rightarrow>
                 (case subscript body' ''id'' of
                    Inl e \<Rightarrow> (evs, Inl e)
                  | Inr v \<Rightarrow> (evs, Inr v)))
          else (evs, Inr JNull))"

text \<open>
  Line 162 takes \<^verbatim>\<open>len(res)\<close> of the response object, which has no length, and would
  iterate over the number: Python raises \<^verbatim>\<open>TypeError\<close> before anything is printed.
\<close>

definition list_teams ::
  "github \<Rightarrow> string \<Rightarrow> (nat \<Rightarrow> outcome) \<Rightarrow> event list \<times> (exn + unit)" where
  "list_teams self org' env =
     (case gh_request self (''/orgs/'' @ org' @ ''/teams'') ''GET'' (JDict []) env of
        (evs, Inl e) \<Rightarrow> (evs, Inl e)
      | (evs, Inr res) \<Rightarrow>
          if status_code res = 200 then
            (evs, Inl TypeError)
          else (evs @ [Printed ''Something unexpected happened''], Inr ()))"

definition is_user_member_of_org ::
  "github \<Rightarrow> string \<Rightarrow> int \<Rightarrow> (nat \<Rightarrow> outcome) \<Rightarrow> event list \<times> (exn + bool)" where
  "is_user_member_of_org self org' user_id env =
     (case gh_request self (''/orgs/'' @ org' @ ''/members/'' @ str_int user_id) ''GET'' (JDict []) env of
        (evs, Inl e) \<Rightarrow> (evs, Inl e)
      | (evs, Inr res) \<Rightarrow> (evs, Inr (status_code res = 204)))"

subsection \<open>Observing a trace\<close>

fun requests_of :: "event list \<Rightarrow> request list" where
  "requests_of [] = []"
| "requests_of (Requested r # evs) = r # requests_of evs"
| "requests_of (ev # evs) = requests_of evs"

fun sleeps_of :: "event list \<Rightarrow> int list" where
  "sleeps_of [] = []"
| "sleeps_of (Slept d # evs) = d # sleeps_of evs"
| "sleeps_of (ev # evs) = sleeps_of evs"

text \<open>
  An outcome that makes the loop go on to the next attempt when the attempt is not the
  last one: status 403 or at least 500 (lines 82-88), an exception of the request
  (lines 92-99), or a 4xx other than 404 whose body is not JSON.
\<close>

fun is_json :: "parsed \<Rightarrow> bool" where
  "is_json (Parsed v) = True"
| "is_json (NotJSON e) = False"

fun retried :: "outcome \<Rightarrow> bool" where
  "retried (Returns res) =
     (status_code res = 403 \<or> 500 \<le> status_code res
      \<or> (400 \<le> status_code res \<and> status_code res < 500 \<and> status_code res \<noteq> 404
           \<and> \<not> is_json (json res)))"
| "retried (Raises e) = True"

text \<open>An API that gives the same outcome at every attempt.\<close>

definition always :: "outcome \<Rightarrow> nat \<Rightarrow> outcome" where
  "always out attempt = out"

text \<open>The events of one attempt up to and including its request.\<close>

definition attempt_events :: "github \<Rightarrow> request \<Rightarrow> nat \<Rightarrow> event list" where
  "attempt_events self req attempt = before_attempt self attempt @ [Requested req]"

section \<open>Properties\<close>

subsection \<open>Formatting and traces\<close>

lemma str_int_3: "str_int 3 = ''3''"
  by code_simp

lemma str_int_30: "str_int 30 = ''30''"
  by code_simp

lemma str_int_2: "str_int 2 = ''2''"
  by code_simp

lemma str_int_42: "str_int 42 = ''42''"
  by code_simp

lemma emit_Nil [simp]: "emit [] r = r"
  by (simp add: emit_def)

lemma emit_emit [simp]: "emit xs (emit ys r) = emit (xs @ ys) r"
  by (simp add: emit_def)

lemma fst_emit [simp]: "fst (emit xs r) = xs @ fst r"
  by (simp add: emit_def)

lemma snd_emit [simp]: "snd (emit xs r) = snd r"
  by (simp add: emit_def)

lemma requests_of_append [simp]: "requests_of (xs @ ys) = requests_of xs @ requests_of ys"
  by (induction xs rule: requests_of.induct) simp_all

lemma sleeps_of_append [simp]: "sleeps_of (xs @ ys) = sleeps_of xs @ sleeps_of ys"
  by (induction xs rule: sleeps_of.induct) simp_all

lemma retry_wait_nonneg: "0 \<le> retry_delay self \<Longrightarrow> 0 \<le> retry_wait self a"
  by (simp add: retry_wait_def)

lemma requests_of_attempt_events [simp]: "requests_of (attempt_events self req a) = [req]"
  by (simp add: attempt_events_def before_attempt_def)

lemma sleeps_of_attempt_events:
  "sleeps_of (attempt_events self req a) = (if a > 0 then [retry_wait self a] else [])"
  by (simp add: attempt_events_def before_attempt_def)

lemma requests_of_prefix [simp]:
  "requests_of (concat (map (attempt_events self req) [i..<k])) = replicate (k - i) req"
proof (induction "k - i" arbitrary: i)
  case 0
  then show ?case by simp
next
  case (Suc d)
  then have "i < k" and "d = k - Suc i" and "k - i = Suc (k - Suc i)" by auto
  with Suc.hyps(1) [of "Suc i"] show ?case
    by (simp add: upt_conv_Cons)
qed

lemma sleeps_of_prefix:
  "sleeps_of (concat (map (attempt_events self req) [i..<k]))
     = map (retry_wait self) [max 1 i..<k]"
proof (induction "k - i" arbitrary: i)
  case 0
  then show ?case by simp
next
  case (Suc d)
  then have ik: "i < k" and "d = k - Suc i" by auto
  with Suc.hyps(1) [of "Suc i"] show ?case
    by (cases "i = 0") (auto simp: upt_conv_Cons sleeps_of_attempt_events)
qed

subsection \<open>One attempt\<close>

lemma attempt_head:
  assumes "0 \<le> retry_delay self"
  shows "\<exists>out. attempts self req env (a # rest) lx = emit (attempt_events self req a) out"
proof -
  have "attempts self req env (a # rest) lx
      = emit (attempt_events self req a)
          (case try_body self a (env a) of
             Done result \<Rightarrow> result
           | Continue \<Rightarrow> attempts self req env rest lx
           | Caught (Timeout e) \<Rightarrow>
               if int a = max_retries self - 1 then
                 raise_GithubAPIError
                   (''Request timed out after '' @ str_int (timeout self) @ '' seconds'') None None
               else attempts self req env rest (Some (Timeout e))
           | Caught (RequestException e r) \<Rightarrow>
               if int a = max_retries self - 1 then
                 raise_GithubAPIError (''Network error: '' @ e) (map_option status_code r) None
               else attempts self req env rest (Some (RequestException e r)))"
    using retry_wait_nonneg [OF assms, of a] by (simp add: attempt_events_def)
  then show ?thesis by (rule exI)
qed

lemma attempt_done:
  assumes "0 \<le> retry_delay self" and "try_body self a (env a) = Done out"
  shows "attempts self req env (a # rest) lx = emit (attempt_events self req a) out"
  using assms(2) retry_wait_nonneg [OF assms(1), of a] by (simp add: attempt_events_def)

lemma attempt_continue:
  assumes "0 \<le> retry_delay self" and "try_body self a (env a) = Continue"
  shows "attempts self req env (a # rest) lx
           = emit (attempt_events self req a) (attempts self req env rest lx)"
  using assms(2) retry_wait_nonneg [OF assms(1), of a] by (simp add: attempt_events_def)

lemma attempt_caught:
  assumes "0 \<le> retry_delay self" and "try_body self a (env a) = Caught exc"
  shows "attempts self req env (a # rest) lx
           = emit (attempt_events self req a)
               (if int a = max_retries self - 1 then
                  (case exc of
                     Timeout e \<Rightarrow>
                       raise_GithubAPIError
                         (''Request timed out after '' @ str_int (timeout self) @ '' seconds'')
                         None None
                   | RequestException e r \<Rightarrow>
                       raise_GithubAPIError (''Network error: '' @ e) (map_option status_code r) None)
                else attempts self req env rest (Some exc))"
  using assms(2) retry_wait_nonneg [OF assms(1), of a]
  by (cases exc) (simp_all add: attempt_events_def)

lemma try_body_retried:
  assumes "retried out" and "int a \<noteq> max_retries self - 1"
  shows "try_body self a out = Continue \<or> (\<exists>exc. try_body self a out = Caught exc)"
proof (cases out)
  case (Returns res)
  with assms show ?thesis
    by (cases "json res") (auto simp: try_body_def raise_with_json_def)
next
  case (Raises exc)
  then show ?thesis by (simp add: try_body_def)
qed

subsection \<open>The loop goes on after a retried attempt\<close>

lemma attempts_retried:
  assumes "retried (env a)" and "int a \<noteq> max_retries self - 1" and "0 \<le> retry_delay self"
  shows "\<exists>last'. attempts self req env (a # rest) lx
           = emit (attempt_events self req a) (attempts self req env rest last')"
proof -
  from try_body_retried [OF assms(1,2)]
  consider "try_body self a (env a) = Continue"
    | exc where "try_body self a (env a) = Caught exc"
    by blast
  then show ?thesis
  proof cases
    case 1
    from attempt_continue [where env=env and a=a, OF assms(3) this] show ?thesis by blast
  next
    case 2
    from attempt_caught [where env=env and a=a, OF assms(3) this] assms(2) show ?thesis by auto
  qed
qed

lemma attempts_prefix:
  assumes "0 \<le> retry_delay self" and "k < m" and "int m = max_retries self"
    and "\<And>j. i \<le> j \<Longrightarrow> j < k \<Longrightarrow> retried (env j)"
  shows "i \<le> k \<Longrightarrow> \<exists>last'. attempts self req env [i..<m] lx
           = emit (concat (map (attempt_events self req) [i..<k]))
               (attempts self req env [k..<m] last')"
  using assms(4)
proof (induction "k - i" arbitrary: i lx)
  case 0
  then show ?case by auto
next
  case (Suc d)
  then have ik: "i < k" and d: "d = k - Suc i" by auto
  have im: "i < m" using ik assms(2) by simp
  have r: "retried (env i)" using Suc.prems(2) [of i] ik by simp
  have nl: "int i \<noteq> max_retries self - 1" using ik assms(2,3) by linarith
  obtain l1 where s1: "attempts self req env (i # [Suc i..<m]) lx
      = emit (attempt_events self req i) (attempts self req env [Suc i..<m] l1)"
    using attempts_retried [of env i self req "[Suc i..<m]" lx] r nl assms(1) by blast
  obtain l2 where s2: "attempts self req env [Suc i..<m] l1
      = emit (concat (map (attempt_events self req) [Suc i..<k])) (attempts self req env [k..<m] l2)"
    using Suc.hyps(1) [OF d, of l1] ik Suc.prems(2) by force
  have "attempts self req env [i..<m] lx
      = emit (concat (map (attempt_events self req) [i..<k])) (attempts self req env [k..<m] l2)"
    using s1 s2 im ik by (simp add: upt_conv_Cons)
  then show ?case by blast
qed

lemma gh_request_prefix:
  assumes "0 \<le> retry_delay self" and "int k < max_retries self"
    and "\<And>j. j < k \<Longrightarrow> retried (env j)"
  shows "\<exists>last'. gh_request self path meth d env
           = emit (concat (map (attempt_events self (request_of self path meth (payload d))) [0..<k]))
               (attempts self (request_of self path meth (payload d))
                 env (k # [Suc k..<nat (max_retries self)]) last')"
proof -
  have km: "k < nat (max_retries self)" using assms(2) by linarith
  have "int (nat (max_retries self)) = max_retries self" using assms(2) by linarith
  from attempts_prefix [OF assms(1) km this, of 0 env] assms(3) km
  show ?thesis unfolding gh_request_def by (simp add: upt_conv_Cons)
qed

subsection \<open>What the loop can return, and what it sends\<close>

lemma try_body_Done_returned:
  assumes "try_body self a out = Done (evs, Inr res)"
  shows "(status_code res = 404 \<or> status_code res < 400) \<and> out = Returns res"
proof (cases out)
  case (Returns r)
  with assms show ?thesis
    by (cases "json r")
       (auto simp: try_body_def raise_with_json_def raise_GithubAPIError_def split: if_splits)
next
  case (Raises exc)
  with assms show ?thesis by (simp add: try_body_def)
qed

lemma attempts_returned:
  "snd (attempts self req env xs lx) = Inr res \<Longrightarrow>
     (status_code res = 404 \<or> status_code res < 400) \<and> (\<exists>k \<in> set xs. env k = Returns res)"
proof (induction xs arbitrary: lx)
  case Nil
  then show ?case by (simp add: raise_GithubAPIError_def)
next
  case (Cons a xs)
  show ?case
  proof (cases "try_body self a (env a)")
    case (Done result)
    with Cons.prems have "\<exists>evs. result = (evs, Inr res)"
      by (cases result) (auto split: if_splits)
    with Done try_body_Done_returned [of self a "env a" _ res] show ?thesis by auto
  next
    case Continue
    with Cons show ?thesis by (auto split: if_splits)
  next
    case (Caught exc)
    with Cons show ?thesis
      by (cases exc) (auto simp: raise_GithubAPIError_def split: if_splits)
  qed
qed

lemma try_body_Done_no_request:
  assumes "try_body self a out = Done result"
  shows "requests_of (fst result) = []"
proof (cases out)
  case (Returns r)
  with assms show ?thesis
    by (cases "json r")
       (auto simp: try_body_def raise_with_json_def raise_GithubAPIError_def split: if_splits)
next
  case (Raises exc)
  with assms show ?thesis by (simp add: try_body_def)
qed

lemma attempts_requests:
  "set (requests_of (fst (attempts self req env xs lx))) \<subseteq> {req}"
proof (induction xs arbitrary: lx)
  case Nil
  then show ?case by (simp add: raise_GithubAPIError_def)
next
  case (Cons a xs)
  show ?case
  proof (cases "try_body self a (env a)")
    case (Done result)
    with try_body_Done_no_request [OF Done] show ?thesis
      by (auto simp: before_attempt_def split: if_splits)
  next
    case Continue
    with Cons show ?thesis by (auto simp: before_attempt_def split: if_splits)
  next
    case (Caught exc)
    with Cons show ?thesis
      by (cases exc) (auto simp: raise_GithubAPIError_def before_attempt_def split: if_splits)
  qed
qed

lemma gh_request_requests:
  "r \<in> set (requests_of (fst (gh_request self path meth d env)))
     \<Longrightarrow> r = request_of self path meth (payload d)"
  using attempts_requests [of self "request_of self path meth (payload d)" env
      "[0..<nat (max_retries self)]" None]
  unfolding gh_request_def by blast

subsection \<open>The attempt that decides a call\<close>

lemma gh_request_decided:
  assumes "0 \<le> retry_delay self" and "int k < max_retries self"
    and "\<forall>j<k. retried (env j)"
    and step: "\<And>rest lx. attempts self (request_of self path meth (payload d)) env (k # rest) lx
                 = emit (attempt_events self (request_of self path meth (payload d)) k) out"
  shows "gh_request self path meth d env
           = emit (concat (map (attempt_events self (request_of self path meth (payload d))) [0..<Suc k])) out"
proof -
  from gh_request_prefix [OF assms(1,2), of env path meth d] assms(3)
  obtain lx where "gh_request self path meth d env
      = emit (concat (map (attempt_events self (request_of self path meth (payload d))) [0..<k]))
          (attempts self (request_of self path meth (payload d)) env
             (k # [Suc k..<nat (max_retries self)]) lx)"
    by blast
  then show ?thesis by (simp add: step del: attempts.simps)
qed

lemma gh_request_first_attempt_done:
  assumes "0 < max_retries self" and "try_body self 0 (env 0) = Done out"
  shows "gh_request self path meth d env
           = emit [Requested (request_of self path meth (payload d))] out"
proof -
  have "[0..<nat (max_retries self)] = 0 # [1..<nat (max_retries self)]"
    using assms(1) by (simp add: upt_conv_Cons)
  with assms(2) show ?thesis
    by (simp add: gh_request_def before_attempt_def)
qed

lemma gh_request_first_attempt_returned:
  assumes "0 < max_retries self" and "env 0 = Returns res"
    and "status_code res < 400 \<or> status_code res = 404"
  shows "gh_request self path meth d env
           = ([Requested (request_of self path meth (payload d))], Inr res)"
proof -
  from assms(2,3) have "try_body self 0 (env 0) = Done ([], Inr res)"
    by (auto simp: try_body_def)
  from gh_request_first_attempt_done [where env=env, OF assms(1) this] show ?thesis
    by (simp add: emit_def)
qed

text \<open>What the body of the \<^verbatim>\<open>try\<close> does with the statuses that are classified as errors.\<close>

lemma try_body_client_error:
  assumes "400 \<le> status_code res" and "status_code res < 500"
    and "status_code res \<noteq> 403" and "status_code res \<noteq> 404"
  shows "try_body self a (Returns res)
           = raise_with_json
               (if status_code res = 401
                then ''Authentication failed. Please check your GitHub token''
                else ''Client error: '' @ str_int (status_code res)) res"
  using assms by (simp add: try_body_def)

lemma try_body_last_retryable:
  assumes "status_code res = 403 \<or> 500 \<le> status_code res" and "int a = max_retries self - 1"
  shows "try_body self a (Returns res)
           = raise_with_json
               (if status_code res = 403 then ''Rate limit exceeded or insufficient permissions''
                else ''GitHub server error'') res"
  using assms by (auto simp: try_body_def)

section \<open>The claims\<close>

text \<open>
  C1. Every attempt of \<^verbatim>\<open>gh_request\<close> observes status 403 or a status of at least 500
  (the 5xx range and above). Then the call sends exactly \<open>max_retries\<close> requests, that is,
  it retries \<open>max_retries - 1\<close> times, and before attempt number \<open>attempt > 0\<close>, right
  before its request, it logs a warning and sleeps \<open>retry_delay * 2 ^ (attempt - 1)\<close>
  seconds: 1, 2, 4, ... for the delay 1 of the constructor. What it raises after the last
  attempt depends on the body of the last response. If the body is JSON, it is
  \<^verbatim>\<open>GithubAPIError\<close> "Rate limit exceeded or insufficient permissions" for 403 and
  "GitHub server error" otherwise, with the status and the body. If the body is not JSON,
  \<^verbatim>\<open>res.json()\<close> raises while the arguments of that error are evaluated, the handler of
  line 96 catches it, and the call raises "Network error: ..." with no status instead. The
  last conjunct gives the whole trace, in order.
\<close>

theorem gh_request_all_403_or_5xx:
  assumes "0 < max_retries self" and "0 \<le> retry_delay self"
    and "\<forall>i. int i < max_retries self \<longrightarrow>
           (\<exists>r. env i = Returns r \<and> (status_code r = 403 \<or> 500 \<le> status_code r))"
    and "env (nat (max_retries self) - 1) = Returns res"
  shows "requests_of (fst (gh_request self path meth d env))
           = replicate (nat (max_retries self)) (request_of self path meth (payload d))
       \<and> sleeps_of (fst (gh_request self path meth d env))
           = map (\<lambda>attempt. retry_delay self * 2 ^ (attempt - 1)) [1..<nat (max_retries self)]
       \<and> (\<forall>body'. json res = Parsed body' \<longrightarrow>
            snd (gh_request self path meth d env)
              = Inl (GithubAPIError
                       (if status_code res = 403
                        then ''Rate limit exceeded or insufficient permissions''
                        else ''GitHub server error'')
                       (Some (status_code res)) (Some body')))
       \<and> (\<forall>e. json res = NotJSON e \<longrightarrow>
            snd (gh_request self path meth d env)
              = Inl (GithubAPIError (''Network error: '' @ e) None None))
       \<and> fst (gh_request self path meth d env)
           = concat (map (\<lambda>attempt.
                 (if attempt > 0
                  then [LoggedWarning (retry_warning self attempt),
                        Slept (retry_delay self * 2 ^ (attempt - 1))]
                  else [])
                 @ [Requested (request_of self path meth (payload d))])
               [0..<nat (max_retries self)])
             @ [LoggedError (''GitHub API Error: ''
                  @ (case json res of
                       Parsed body' \<Rightarrow>
                         (if status_code res = 403
                          then ''Rate limit exceeded or insufficient permissions''
                          else ''GitHub server error'')
                     | NotJSON e \<Rightarrow> ''Network error: '' @ e))]"
proof -
  let ?req = "request_of self path meth (payload d)"
  let ?n = "nat (max_retries self)"
  let ?k = "?n - 1"
  let ?msg = "if status_code res = 403 then ''Rate limit exceeded or insufficient permissions''
              else ''GitHub server error''"
  let ?out = "case json res of
                Parsed body' \<Rightarrow> raise_GithubAPIError ?msg (Some (status_code res)) (Some body')
              | NotJSON e \<Rightarrow> raise_GithubAPIError (''Network error: '' @ e) None None"
  have k: "int ?k < max_retries self" "int ?k = max_retries self - 1" "Suc ?k = ?n"
    using assms(1) by auto
  have st: "status_code res = 403 \<or> 500 \<le> status_code res"
    using assms(3,4) k(1) by force
  have prev: "\<forall>j<?k. retried (env j)"
  proof (intro allI impI)
    fix j assume "j < ?k"
    then have "int j < max_retries self" by linarith
    with assms(3) obtain r where "env j = Returns r" "status_code r = 403 \<or> 500 \<le> status_code r"
      by blast
    then show "retried (env j)" by auto
  qed
  have step: "attempts self ?req env (?k # rest) lx = emit (attempt_events self ?req ?k) ?out"
    for rest lx
  proof (cases "json res")
    case (Parsed body')
    then have "try_body self ?k (env ?k)
        = Done (raise_GithubAPIError ?msg (Some (status_code res)) (Some body'))"
      using try_body_last_retryable [OF st k(2)] assms(4) by (simp add: raise_with_json_def)
    from attempt_done [where env=env and a="?k", OF assms(2) this] Parsed
    show ?thesis by simp
  next
    case (NotJSON e)
    then have "try_body self ?k (env ?k) = Caught (RequestException e None)"
      using try_body_last_retryable [OF st k(2)] assms(4) by (simp add: raise_with_json_def)
    from attempt_caught [where env=env and a="?k", OF assms(2) this] NotJSON k(2)
    show ?thesis by simp
  qed
  have g: "gh_request self path meth d env
      = emit (concat (map (attempt_events self ?req) [0..<?n])) ?out"
    using gh_request_decided [OF assms(2) k(1) prev, of path meth d ?out] step
    unfolding k(3) by blast
  have ev: "attempt_events self ?req
      = (\<lambda>attempt. (if attempt > 0
                  then [LoggedWarning (retry_warning self attempt),
                        Slept (retry_delay self * 2 ^ (attempt - 1))]
                  else []) @ [Requested ?req])"
    by (rule ext) (simp add: attempt_events_def before_attempt_def retry_wait_def)
  have sl: "sleeps_of (concat (map (attempt_events self ?req) [0..<?n]))
      = map (\<lambda>attempt. retry_delay self * 2 ^ (attempt - 1)) [1..<?n]"
    unfolding sleeps_of_prefix by (simp add: retry_wait_def)
  have rq: "requests_of (concat (map (attempt_events self ?req) [0..<?n])) = replicate ?n ?req"
    unfolding requests_of_prefix by simp
  have c1: "requests_of (fst (gh_request self path meth d env)) = replicate ?n ?req"
    unfolding g using rq by (cases "json res") (simp_all add: raise_GithubAPIError_def)
  have c2: "sleeps_of (fst (gh_request self path meth d env))
      = map (\<lambda>attempt. retry_delay self * 2 ^ (attempt - 1)) [1..<?n]"
    unfolding g using sl by (cases "json res") (simp_all add: raise_GithubAPIError_def)
  have c3: "\<forall>body'. json res = Parsed body' \<longrightarrow>
      snd (gh_request self path meth d env)
        = Inl (GithubAPIError ?msg (Some (status_code res)) (Some body'))"
    unfolding g by (simp add: raise_GithubAPIError_def)
  have c4: "\<forall>e. json res = NotJSON e \<longrightarrow>
      snd (gh_request self path meth d env) = Inl (GithubAPIError (''Network error: '' @ e) None None)"
    unfolding g by (simp add: raise_GithubAPIError_def)
  have c5: "fst (gh_request self path meth d env)
      = concat (map (attempt_events self ?req) [0..<?n])
        @ [LoggedError (''GitHub API Error: ''
             @ (case json res of Parsed body' \<Rightarrow> ?msg | NotJSON e \<Rightarrow> ''Network error: '' @ e))]"
    unfolding g by (cases "json res") (simp_all add: raise_GithubAPIError_def)
  show ?thesis
    using c1 c2 c3 c4 c5 unfolding ev by blast
qed

theorem gh_request_all_403_or_5xx_witness:
  "sleeps_of (fst (gh_request (github_init ''token'' None) ''/orgs/acme/teams'' ''GET'' (JDict [])
      (always (Returns \<lparr>status_code = 502, json = NotJSON ''Expecting value''\<rparr>))))
     = [1, 2]
   \<and> length (requests_of (fst (gh_request (github_init ''token'' None) ''/orgs/acme/teams'' ''GET''
      (JDict []) (always (Returns \<lparr>status_code = 502, json = NotJSON ''Expecting value''\<rparr>)))))
     = 3
   \<and> snd (gh_request (github_init ''token'' None) ''/orgs/acme/teams'' ''GET'' (JDict [])
      (always (Returns \<lparr>status_code = 502, json = NotJSON ''Expecting value''\<rparr>)))
     = Inl (GithubAPIError ''Network error: Expecting value'' None None)
   \<and> snd (gh_request (github_init ''token'' None) ''/orgs/acme/teams'' ''GET'' (JDict [])
      (always (Returns \<lparr>status_code = 502,
                 json = Parsed (JDict [(''message'', JStr ''Bad Gateway'')])\<rparr>)))
     = Inl (GithubAPIError ''GitHub server error'' (Some 502)
              (Some (JDict [(''message'', JStr ''Bad Gateway'')])))"
  using gh_request_all_403_or_5xx [of "github_init ''token'' None"
      "always (Returns \<lparr>status_code = 502, json = NotJSON ''Expecting value''\<rparr>)"
      "\<lparr>status_code = 502, json = NotJSON ''Expecting value''\<rparr>"
      "''/orgs/acme/teams''" "''GET''" "JDict []"]
    gh_request_all_403_or_5xx [of "github_init ''token'' None"
      "always (Returns \<lparr>status_code = 502,
                 json = Parsed (JDict [(''message'', JStr ''Bad Gateway'')])\<rparr>)"
      "\<lparr>status_code = 502, json = Parsed (JDict [(''message'', JStr ''Bad Gateway'')])\<rparr>"
      "''/orgs/acme/teams''" "''GET''" "JDict []"]
  by (simp add: github_init_def always_def upt_rec)

text \<open>
  C2. When the first attempt of \<^verbatim>\<open>gh_request\<close> observes status 404, the call raises
  nothing and returns that very response; it sends exactly one request and neither sleeps
  nor retries. (A first attempt exists when \<open>max_retries\<close> is positive, as the constructor
  sets it.)
\<close>

theorem gh_request_404_first_attempt:
  assumes "0 < max_retries self" and "env 0 = Returns res" and "status_code res = 404"
  shows "gh_request self path meth d env
           = ([Requested (request_of self path meth (payload d))], Inr res)"
  using gh_request_first_attempt_returned [where env=env and self=self and res=res] assms
  by blast

theorem gh_request_404_first_attempt_witness:
  "gh_request (github_init ''token'' None) ''/users/nobody'' ''GET'' (JDict [])
       (always (Returns \<lparr>status_code = 404,
                  json = Parsed (JDict [(''message'', JStr ''Not Found'')])\<rparr>))
     = ([Requested \<lparr>method_arg = ''GET'', url = ''https://api.github.com/users/nobody'',
           headers = [(''Accept'', ''application/vnd.github+json''),
                      (''Authorization'', ''Bearer token''),
                      (''X-GitHub-Api-Version'', ''2022-11-28'')],
           data = None, timeout_arg = 30\<rparr>],
        Inr \<lparr>status_code = 404, json = Parsed (JDict [(''message'', JStr ''Not Found'')])\<rparr>)"
  using gh_request_404_first_attempt [of "github_init ''token'' None"
      "always (Returns \<lparr>status_code = 404,
                 json = Parsed (JDict [(''message'', JStr ''Not Found'')])\<rparr>)"
      "\<lparr>status_code = 404, json = Parsed (JDict [(''message'', JStr ''Not Found'')])\<rparr>"
      "''/users/nobody''" "''GET''" "JDict []"]
  by (simp add: github_init_def always_def request_of_def payload_def)

text \<open>
  C3. Let attempt \<open>k\<close> of a call be reached (every earlier attempt was retried) and observe
  a response \<open>res\<close> with status 401 or another 4xx except 403 and 404. If the body of
  \<open>res\<close> is JSON, the call raises \<^verbatim>\<open>GithubAPIError\<close> at once: "Authentication failed.
  Please check your GitHub token" for 401 and "Client error: <status>" otherwise, with the
  status and the body; the trace ends with the error's log line right after the request of
  attempt \<open>k\<close>, so nothing is retried. If the body is not JSON, \<^verbatim>\<open>res.json()\<close> raises
  while the arguments of that error are evaluated (lines 75, 79) and the handler of line 96
  catches it: on the last attempt the call raises "Network error: ..." with no status, and
  on an earlier attempt it retries, sending at least one more request.
\<close>

theorem gh_request_401_and_client_errors:
  assumes "0 \<le> retry_delay self" and "int k < max_retries self"
    and "\<forall>j<k. retried (env j)" and "env k = Returns res"
    and "400 \<le> status_code res" and "status_code res < 500"
    and "status_code res \<noteq> 403" and "status_code res \<noteq> 404"
  shows "(\<forall>body'. json res = Parsed body' \<longrightarrow>
            gh_request self path meth d env
              = (concat (map (attempt_events self (request_of self path meth (payload d))) [0..<Suc k])
                   @ [LoggedError (''GitHub API Error: ''
                        @ (if status_code res = 401
                           then ''Authentication failed. Please check your GitHub token''
                           else ''Client error: '' @ str_int (status_code res)))],
                 Inl (GithubAPIError
                        (if status_code res = 401
                         then ''Authentication failed. Please check your GitHub token''
                         else ''Client error: '' @ str_int (status_code res))
                        (Some (status_code res)) (Some body'))))
       \<and> (\<forall>e. json res = NotJSON e \<and> int k = max_retries self - 1 \<longrightarrow>
            gh_request self path meth d env
              = (concat (map (attempt_events self (request_of self path meth (payload d))) [0..<Suc k])
                   @ [LoggedError (''GitHub API Error: Network error: '' @ e)],
                 Inl (GithubAPIError (''Network error: '' @ e) None None)))
       \<and> (\<forall>e. json res = NotJSON e \<and> int k \<noteq> max_retries self - 1 \<longrightarrow>
            k + 2 \<le> length (requests_of (fst (gh_request self path meth d env))))"
proof (intro conjI allI impI)
  let ?req = "request_of self path meth (payload d)"
  let ?pre = "concat (map (attempt_events self ?req) [0..<Suc k])"
  let ?msg = "if status_code res = 401
              then ''Authentication failed. Please check your GitHub token''
              else ''Client error: '' @ str_int (status_code res)"
  note tb = try_body_client_error [OF assms(5,6,7,8), of self k]
  {
    fix body' assume p: "json res = Parsed body'"
    then have "try_body self k (env k)
        = Done (raise_GithubAPIError ?msg (Some (status_code res)) (Some body'))"
      using tb assms(4) by (simp add: raise_with_json_def)
    from attempt_done [where env=env and a=k, OF assms(1) this]
    have "gh_request self path meth d env
        = emit ?pre (raise_GithubAPIError ?msg (Some (status_code res)) (Some body'))"
      by (intro gh_request_decided [OF assms(1,2,3)]) simp
    then show "gh_request self path meth d env
        = (?pre @ [LoggedError (''GitHub API Error: '' @ ?msg)],
           Inl (GithubAPIError ?msg (Some (status_code res)) (Some body')))"
      by (simp add: emit_def raise_GithubAPIError_def)
  }
  {
    fix e assume a: "json res = NotJSON e \<and> int k = max_retries self - 1"
    then have "try_body self k (env k) = Caught (RequestException e None)"
      using tb assms(4) by (simp add: raise_with_json_def)
    from attempt_caught [where env=env and a=k, OF assms(1) this] a
    have "gh_request self path meth d env
        = emit ?pre (raise_GithubAPIError (''Network error: '' @ e) None None)"
      by (intro gh_request_decided [OF assms(1,2,3)]) simp
    then show "gh_request self path meth d env
        = (?pre @ [LoggedError (''GitHub API Error: Network error: '' @ e)],
           Inl (GithubAPIError (''Network error: '' @ e) None None))"
      by (simp add: emit_def raise_GithubAPIError_def)
  }
  {
    fix e assume a: "json res = NotJSON e \<and> int k \<noteq> max_retries self - 1"
    then have rk: "retried (env k)"
      using assms(4,5,6,8) by simp
    have prev: "\<And>j. j < Suc k \<Longrightarrow> retried (env j)"
      using assms(3) rk less_Suc_eq by blast
    have sk: "int (Suc k) < max_retries self"
      using assms(2) a by linarith
    from gh_request_prefix [where k="Suc k" and env=env and path=path and meth=meth and d=d,
        OF assms(1) sk prev]
    obtain lx where g: "gh_request self path meth d env
        = emit ?pre (attempts self ?req env (Suc k # [Suc (Suc k)..<nat (max_retries self)]) lx)"
      by blast
    from attempt_head [OF assms(1), of ?req env "Suc k"]
    obtain out where "attempts self ?req env (Suc k # [Suc (Suc k)..<nat (max_retries self)]) lx
        = emit (attempt_events self ?req (Suc k)) out"
      by blast
    with g have g2: "gh_request self path meth d env
        = emit (?pre @ attempt_events self ?req (Suc k)) out"
      by (simp only: emit_emit)
    have "length (requests_of (fst (gh_request self path meth d env)))
        = length (requests_of ?pre) + 1 + length (requests_of (fst out))"
      unfolding g2 by (simp del: upt_Suc requests_of_prefix)
    also have "length (requests_of ?pre) = Suc k"
      by (simp only: requests_of_prefix length_replicate diff_zero)
    finally show "k + 2 \<le> length (requests_of (fst (gh_request self path meth d env)))"
      by simp
  }
qed

theorem gh_request_401_and_client_errors_witness:
  "gh_request (github_init ''token'' None) ''/user'' ''GET'' (JDict [])
      (always (Returns \<lparr>status_code = 401, json = NotJSON ''Expecting value''\<rparr>))
     = ([Requested (request_of (github_init ''token'' None) ''/user'' ''GET'' None),
         LoggedWarning ''Retrying request (attempt 2/3)'',
         Slept 1,
         Requested (request_of (github_init ''token'' None) ''/user'' ''GET'' None),
         LoggedWarning ''Retrying request (attempt 3/3)'',
         Slept 2,
         Requested (request_of (github_init ''token'' None) ''/user'' ''GET'' None),
         LoggedError ''GitHub API Error: Network error: Expecting value''],
        Inl (GithubAPIError ''Network error: Expecting value'' None None))
   \<and> gh_request (github_init ''token'' None) ''/user'' ''GET'' (JDict [])
      (always (Returns \<lparr>status_code = 401,
                 json = Parsed (JDict [(''message'', JStr ''Bad credentials'')])\<rparr>))
     = ([Requested (request_of (github_init ''token'' None) ''/user'' ''GET'' None),
         LoggedError ''GitHub API Error: Authentication failed. Please check your GitHub token''],
        Inl (GithubAPIError ''Authentication failed. Please check your GitHub token'' (Some 401)
               (Some (JDict [(''message'', JStr ''Bad credentials'')]))))"
  using gh_request_401_and_client_errors [of "github_init ''token'' None" 2
      "always (Returns \<lparr>status_code = 401, json = NotJSON ''Expecting value''\<rparr>)"
      "\<lparr>status_code = 401, json = NotJSON ''Expecting value''\<rparr>"
      "''/user''" "''GET''" "JDict []"]
    gh_request_401_and_client_errors [of "github_init ''token'' None" 0
      "always (Returns \<lparr>status_code = 401,
                 json = Parsed (JDict [(''message'', JStr ''Bad credentials'')])\<rparr>)"
      "\<lparr>status_code = 401, json = Parsed (JDict [(''message'', JStr ''Bad credentials'')])\<rparr>"
      "''/user''" "''GET''" "JDict []"]
  by (simp add: github_init_def always_def payload_def attempt_events_def before_attempt_def
      retry_warning_def retry_wait_def str_int_2 str_int_3 upt_rec)

text \<open>
  C4. For a positive \<open>max_retries\<close>: if every attempt ends in \<^verbatim>\<open>Timeout\<close>, the call
  raises \<^verbatim>\<open>GithubAPIError\<close> "Request timed out after <timeout> seconds" after
  \<open>max_retries\<close> requests; if the first \<open>max_retries - 1\<close> attempts time out and the last
  one observes a response that is not classified as an error (status below 400, or 404), the
  call returns that response, again after \<open>max_retries\<close> requests.
\<close>

theorem gh_request_timeouts:
  assumes "0 < max_retries self" and "0 \<le> retry_delay self"
  shows "((\<forall>i. int i < max_retries self \<longrightarrow> (\<exists>e. env i = Raises (Timeout e))) \<longrightarrow>
            snd (gh_request self path meth d env)
              = Inl (GithubAPIError
                       (''Request timed out after '' @ str_int (timeout self) @ '' seconds'')
                       None None)
          \<and> requests_of (fst (gh_request self path meth d env))
              = replicate (nat (max_retries self)) (request_of self path meth (payload d)))
       \<and> ((\<forall>i. int i < max_retries self - 1 \<longrightarrow> (\<exists>e. env i = Raises (Timeout e)))
            \<and> env (nat (max_retries self) - 1) = Returns res
            \<and> (status_code res < 400 \<or> status_code res = 404) \<longrightarrow>
            snd (gh_request self path meth d env) = Inr res
          \<and> requests_of (fst (gh_request self path meth d env))
              = replicate (nat (max_retries self)) (request_of self path meth (payload d)))"
proof -
  let ?req = "request_of self path meth (payload d)"
  let ?n = "nat (max_retries self)"
  let ?k = "?n - 1"
  have k: "int ?k < max_retries self" "int ?k = max_retries self - 1" "Suc ?k = ?n"
    using assms(1) by auto
  have rq: "requests_of (concat (map (attempt_events self ?req) [0..<?n])) = replicate ?n ?req"
    unfolding requests_of_prefix by simp
  have prev: "\<forall>j<?k. retried (env j)"
    if t: "\<forall>i. int i < max_retries self - 1 \<longrightarrow> (\<exists>e. env i = Raises (Timeout e))"
  proof (intro allI impI)
    fix j assume "j < ?k"
    then have "int j < max_retries self - 1" by linarith
    with t obtain e where "env j = Raises (Timeout e)" by blast
    then show "retried (env j)" by simp
  qed
  show ?thesis
  proof (intro conjI impI)
    assume all: "\<forall>i. int i < max_retries self \<longrightarrow> (\<exists>e. env i = Raises (Timeout e))"
    then have "\<forall>i. int i < max_retries self - 1 \<longrightarrow> (\<exists>e. env i = Raises (Timeout e))"
      by auto
    note p = prev [OF this]
    from all k(1) obtain e where e: "env ?k = Raises (Timeout e)" by blast
    then have "try_body self ?k (env ?k) = Caught (Timeout e)"
      by (simp add: try_body_def)
    from attempt_caught [where env=env and a="?k", OF assms(2) this] k(2)
    have g: "gh_request self path meth d env
      = emit (concat (map (attempt_events self ?req) [0..<?n]))
          (raise_GithubAPIError
             (''Request timed out after '' @ str_int (timeout self) @ '' seconds'') None None)"
      using gh_request_decided [OF assms(2) k(1) p, of path meth d
          "raise_GithubAPIError
             (''Request timed out after '' @ str_int (timeout self) @ '' seconds'') None None"]
      unfolding k(3) by simp
    show "snd (gh_request self path meth d env)
              = Inl (GithubAPIError
                       (''Request timed out after '' @ str_int (timeout self) @ '' seconds'')
                       None None)"
      unfolding g by (simp add: raise_GithubAPIError_def)
    show "requests_of (fst (gh_request self path meth d env)) = replicate ?n ?req"
      unfolding g using rq by (simp add: raise_GithubAPIError_def)
  next
    assume a: "(\<forall>i. int i < max_retries self - 1 \<longrightarrow> (\<exists>e. env i = Raises (Timeout e)))
            \<and> env (nat (max_retries self) - 1) = Returns res
            \<and> (status_code res < 400 \<or> status_code res = 404)"
    then have p: "\<forall>j<?k. retried (env j)" using prev by blast
    from a have r: "env ?k = Returns res" and st: "status_code res < 400 \<or> status_code res = 404"
      by blast+
    then have "try_body self ?k (env ?k) = Done ([], Inr res)"
      by (auto simp: try_body_def)
    from attempt_done [where env=env and a="?k", OF assms(2) this]
    have g: "gh_request self path meth d env
      = emit (concat (map (attempt_events self ?req) [0..<?n])) ([], Inr res)"
      using gh_request_decided [OF assms(2) k(1) p, of path meth d "([], Inr res)"]
      unfolding k(3) by simp
    show "snd (gh_request self path meth d env) = Inr res"
      unfolding g by simp
    show "requests_of (fst (gh_request self path meth d env)) = replicate ?n ?req"
      unfolding g using rq by simp
  qed
qed

theorem gh_request_timeouts_witness:
  "snd (gh_request (github_init ''token'' None) ''/users/octocat'' ''GET'' (JDict [])
      (always (Raises (Timeout ''read timed out''))))
     = Inl (GithubAPIError ''Request timed out after 30 seconds'' None None)
   \<and> snd (gh_request (github_init ''token'' None) ''/users/octocat'' ''GET'' (JDict [])
      (\<lambda>i. if i < 2 then Raises (Timeout ''read timed out'')
            else Returns \<lparr>status_code = 200, json = Parsed (JDict [(''id'', JInt 583231)])\<rparr>))
     = Inr \<lparr>status_code = 200, json = Parsed (JDict [(''id'', JInt 583231)])\<rparr>"
  using gh_request_timeouts [of "github_init ''token'' None"
      "always (Raises (Timeout ''read timed out''))" "''/users/octocat''" "''GET''" "JDict []"]
    gh_request_timeouts [of "github_init ''token'' None"
      "\<lambda>i. if i < 2 then Raises (Timeout ''read timed out'')
            else Returns \<lparr>status_code = 200, json = Parsed (JDict [(''id'', JInt 583231)])\<rparr>"
      "''/users/octocat''" "''GET''" "JDict []"
      "\<lparr>status_code = 200, json = Parsed (JDict [(''id'', JInt 583231)])\<rparr>"]
  by (simp add: github_init_def always_def str_int_30)

text \<open>
  C5. \<^verbatim>\<open>invite_user_org("acme", 42)\<close>, with the default \<^verbatim>\<open>teams\<close> and \<^verbatim>\<open>role\<close>, against
  an API that answers the first request with status 201: the whole trace is one request,
  a POST to \<^verbatim>\<open>https://api.github.com/orgs/acme/invitations\<close> whose payload is the JSON text of
  \<^verbatim>\<open>{"invitee_id": 42, "role": "direct_member", "team_ids": []}\<close>, and the result is the API's
  response, unchanged.
\<close>

theorem invite_user_org_acme_42:
  assumes "0 < max_retries self" and "env 0 = Returns res" and "status_code res = 201"
  shows "invite_user_org self ''acme'' 42 default_teams default_role env
           = ([Requested
                 \<lparr>method_arg = ''POST'',
                  url = ''https://api.github.com/orgs/acme/invitations'',
                  headers = [(''Accept'', ''application/vnd.github+json''),
                             (''Authorization'', ''Bearer '' @ auth self),
                             (''X-GitHub-Api-Version'', ''2022-11-28'')],
                  data = Some (json_dumps (JDict [(''invitee_id'', JInt 42),
                                                  (''role'', JStr ''direct_member''),
                                                  (''team_ids'', JList [])])),
                  timeout_arg = timeout self\<rparr>],
              Inr res)"
  using gh_request_first_attempt_returned [where env=env and self=self and res=res
      and path="''/orgs/acme/invitations''" and meth="''POST''"
      and d="JDict [(''invitee_id'', JInt 42), (''role'', JStr ''direct_member''), (''team_ids'', JList [])]"]
    assms
  by (simp add: invite_user_org_def default_teams_def default_role_def request_of_def payload_def)

theorem invite_user_org_acme_42_witness:
  "invite_user_org (github_init ''token'' None) ''acme'' 42 default_teams default_role
      (always (Returns \<lparr>status_code = 201, json = Parsed (JDict [(''id'', JInt 1)])\<rparr>))
     = ([Requested
           \<lparr>method_arg = ''POST'',
            url = ''https://api.github.com/orgs/acme/invitations'',
            headers = [(''Accept'', ''application/vnd.github+json''),
                       (''Authorization'', ''Bearer token''),
                       (''X-GitHub-Api-Version'', ''2022-11-28'')],
            data = Some (json_dumps (JDict [(''invitee_id'', JInt 42),
                                            (''role'', JStr ''direct_member''),
                                            (''team_ids'', JList [])])),
            timeout_arg = 30\<rparr>],
        Inr \<lparr>status_code = 201, json = Parsed (JDict [(''id'', JInt 1)])\<rparr>)"
  using invite_user_org_acme_42 [of "github_init ''token'' None"
      "always (Returns \<lparr>status_code = 201, json = Parsed (JDict [(''id'', JInt 1)])\<rparr>)"
      "\<lparr>status_code = 201, json = Parsed (JDict [(''id'', JInt 1)])\<rparr>"]
  by (simp add: github_init_def always_def)

text \<open>
  C6, as stated, fails: for a status on which \<^verbatim>\<open>gh_request\<close> raises, \<^verbatim>\<open>get_user_id\<close>
  does not return \<^verbatim>\<open>None\<close> but raises. Here the API answers 401.
\<close>

theorem get_user_id_raises_on_401:
  "snd (get_user_id (github_init ''token'' None) ''octocat''
      (always (Returns \<lparr>status_code = 401,
                 json = Parsed (JDict [(''message'', JStr ''Bad credentials'')])\<rparr>)))
     = Inl (GithubAPIError ''Authentication failed. Please check your GitHub token'' (Some 401)
              (Some (JDict [(''message'', JStr ''Bad credentials'')])))
   \<and> snd (get_user_id (github_init ''token'' None) ''octocat''
      (always (Returns \<lparr>status_code = 401,
                 json = Parsed (JDict [(''message'', JStr ''Bad credentials'')])\<rparr>)))
     \<noteq> Inr JNull"
proof -
  let ?self = "github_init ''token'' None"
  let ?res = "\<lparr>status_code = 401, json = Parsed (JDict [(''message'', JStr ''Bad credentials'')])\<rparr>"
  have "try_body ?self 0 (always (Returns ?res) 0)
      = Done (raise_GithubAPIError ''Authentication failed. Please check your GitHub token''
                (Some 401) (Some (JDict [(''message'', JStr ''Bad credentials'')])))"
    by (simp add: try_body_def raise_with_json_def always_def)
  from gh_request_first_attempt_done [where env="always (Returns ?res)" and self="?self", OF _ this]
  have "snd (gh_request ?self (''/users/'' @ ''octocat'') ''GET'' (JDict []) (always (Returns ?res)))
      = Inl (GithubAPIError ''Authentication failed. Please check your GitHub token'' (Some 401)
              (Some (JDict [(''message'', JStr ''Bad credentials'')])))"
    by (simp add: github_init_def raise_GithubAPIError_def)
  then show ?thesis
    by (auto simp: get_user_id_def split: prod.splits)
qed

text \<open>
  C6, amended. \<^verbatim>\<open>get_user_id(user)\<close> sends only GET requests to \<^verbatim>\<open>/users/{user}\<close>,
  without a payload. When \<^verbatim>\<open>gh_request\<close> returns a response \<open>res\<close> (its status is then 404
  or below 400): for status 200 and a JSON body that is an object with an \<^verbatim>\<open>id\<close>, the
  result is that id; for any other status, 404 included, the result is \<^verbatim>\<open>None\<close> and
  nothing is raised. When \<^verbatim>\<open>gh_request\<close> raises, which it does for 401, for any other 4xx
  but 404, and for 403 or 5xx on the last attempt, \<^verbatim>\<open>get_user_id\<close> raises that same
  error. The last two conjuncts give the first response of the API: a 404 gives \<^verbatim>\<open>None\<close>
  after one request, a 401 with a JSON body raises "Authentication failed".
\<close>

theorem get_user_id_returns_or_raises:
  "(\<forall>r \<in> set (requests_of (fst (get_user_id self user env))).
       method_arg r = ''GET'' \<and> url r = ''https://api.github.com/users/'' @ user \<and> data r = None)
   \<and> (\<forall>res. snd (gh_request self (''/users/'' @ user) ''GET'' (JDict []) env) = Inr res \<longrightarrow>
         (status_code res = 404 \<or> status_code res < 400)
       \<and> (\<forall>items v. status_code res = 200 \<and> json res = Parsed (JDict items)
              \<and> map_of items ''id'' = Some v \<longrightarrow>
            snd (get_user_id self user env) = Inr v)
       \<and> (status_code res \<noteq> 200 \<longrightarrow> snd (get_user_id self user env) = Inr JNull))
   \<and> (\<forall>e. snd (gh_request self (''/users/'' @ user) ''GET'' (JDict []) env) = Inl e \<longrightarrow>
         snd (get_user_id self user env) = Inl e)
   \<and> (\<forall>res. 0 < max_retries self \<and> env 0 = Returns res \<and> status_code res = 404 \<longrightarrow>
         get_user_id self user env
           = ([Requested (request_of self (''/users/'' @ user) ''GET'' None)], Inr JNull))
   \<and> (\<forall>res body'. 0 < max_retries self \<and> env 0 = Returns res \<and> status_code res = 401
              \<and> json res = Parsed body' \<longrightarrow>
         snd (get_user_id self user env)
           = Inl (GithubAPIError ''Authentication failed. Please check your GitHub token''
                    (Some 401) (Some body')))"
proof (intro conjI ballI allI impI)
  fix r assume "r \<in> set (requests_of (fst (get_user_id self user env)))"
  then have "r \<in> set (requests_of (fst (gh_request self (''/users/'' @ user) ''GET'' (JDict []) env)))"
    by (simp add: get_user_id_def split: prod.splits sum.splits if_splits parsed.splits)
  from gh_request_requests [OF this]
  show "method_arg r = ''GET''" and "url r = ''https://api.github.com/users/'' @ user"
    and "data r = None"
    by (simp_all add: request_of_def payload_def)
next
  fix res
  assume "snd (gh_request self (''/users/'' @ user) ''GET'' (JDict []) env) = Inr res"
  from attempts_returned [OF this [unfolded gh_request_def]]
  show "status_code res = 404 \<or> status_code res < 400" by blast
next
  fix res items v
  assume "snd (gh_request self (''/users/'' @ user) ''GET'' (JDict []) env) = Inr res"
    and "status_code res = 200 \<and> json res = Parsed (JDict items) \<and> map_of items ''id'' = Some v"
  then show "snd (get_user_id self user env) = Inr v"
    by (auto simp: get_user_id_def split: prod.splits)
next
  fix res
  assume "snd (gh_request self (''/users/'' @ user) ''GET'' (JDict []) env) = Inr res"
    and "status_code res \<noteq> 200"
  then show "snd (get_user_id self user env) = Inr JNull"
    by (auto simp: get_user_id_def split: prod.splits)
next
  fix e
  assume "snd (gh_request self (''/users/'' @ user) ''GET'' (JDict []) env) = Inl e"
  then show "snd (get_user_id self user env) = Inl e"
    by (auto simp: get_user_id_def split: prod.splits)
next
  fix res
  assume a: "0 < max_retries self \<and> env 0 = Returns res \<and> status_code res = 404"
  then have "gh_request self (''/users/'' @ user) ''GET'' (JDict []) env
      = ([Requested (request_of self (''/users/'' @ user) ''GET'' (payload (JDict [])))], Inr res)"
    using gh_request_first_attempt_returned [where env=env and self=self and res=res]
    by blast
  with a show "get_user_id self user env
           = ([Requested (request_of self (''/users/'' @ user) ''GET'' None)], Inr JNull)"
    by (simp add: get_user_id_def payload_def)
next
  fix res body'
  assume a: "0 < max_retries self \<and> env 0 = Returns res \<and> status_code res = 401
              \<and> json res = Parsed body'"
  then have "try_body self 0 (env 0)
      = Done (raise_GithubAPIError ''Authentication failed. Please check your GitHub token''
                (Some 401) (Some body'))"
    by (simp add: try_body_def raise_with_json_def)
  from gh_request_first_attempt_done [where env=env, OF _ this] a
  have "snd (gh_request self (''/users/'' @ user) ''GET'' (JDict []) env)
      = Inl (GithubAPIError ''Authentication failed. Please check your GitHub token''
               (Some 401) (Some body'))"
    by (simp add: raise_GithubAPIError_def)
  then show "snd (get_user_id self user env)
           = Inl (GithubAPIError ''Authentication failed. Please check your GitHub token''
                    (Some 401) (Some body'))"
    by (auto simp: get_user_id_def split: prod.splits)
qed

theorem get_user_id_returns_or_raises_witness:
  "snd (get_user_id (github_init ''token'' None) ''octocat''
      (always (Returns \<lparr>status_code = 200,
                 json = Parsed (JDict [(''login'', JStr ''octocat''), (''id'', JInt 583231)])\<rparr>)))
     = Inr (JInt 583231)
   \<and> get_user_id (github_init ''token'' None) ''nobody''
      (always (Returns \<lparr>status_code = 404,
                 json = Parsed (JDict [(''message'', JStr ''Not Found'')])\<rparr>))
     = ([Requested \<lparr>method_arg = ''GET'', url = ''https://api.github.com/users/nobody'',
           headers = [(''Accept'', ''application/vnd.github+json''),
                      (''Authorization'', ''Bearer token''),
                      (''X-GitHub-Api-Version'', ''2022-11-28'')],
           data = None, timeout_arg = 30\<rparr>],
        Inr JNull)
   \<and> snd (get_user_id (github_init ''token'' None) ''octocat''
      (always (Returns \<lparr>status_code = 401, json = Parsed JNull\<rparr>)))
     = Inl (GithubAPIError ''Authentication failed. Please check your GitHub token''
              (Some 401) (Some JNull))"
proof -
  let ?self = "github_init ''token'' None"
  let ?ok = "\<lparr>status_code = 200,
              json = Parsed (JDict [(''login'', JStr ''octocat''), (''id'', JInt 583231)])\<rparr>"
  let ?nf = "\<lparr>status_code = 404, json = Parsed (JDict [(''message'', JStr ''Not Found'')])\<rparr>"
  let ?un = "\<lparr>status_code = 401, json = Parsed JNull\<rparr>"
  have g: "snd (gh_request ?self (''/users/'' @ ''octocat'') ''GET'' (JDict []) (always (Returns ?ok)))
      = Inr ?ok"
    using gh_request_first_attempt_returned [where env="always (Returns ?ok)" and self="?self"
        and res="?ok"]
    by (simp add: github_init_def always_def)
  from get_user_id_returns_or_raises [of ?self "''octocat''" "always (Returns ?ok)"] g
  have a: "snd (get_user_id ?self ''octocat'' (always (Returns ?ok))) = Inr (JInt 583231)"
    by simp
  from get_user_id_returns_or_raises [of ?self "''nobody''" "always (Returns ?nf)"]
  have b: "get_user_id ?self ''nobody'' (always (Returns ?nf))
      = ([Requested (request_of ?self ''/users/nobody'' ''GET'' None)], Inr JNull)"
    by (simp add: github_init_def always_def)
  from get_user_id_returns_or_raises [of ?self "''octocat''" "always (Returns ?un)"]
  have c: "snd (get_user_id ?self ''octocat'' (always (Returns ?un)))
      = Inl (GithubAPIError ''Authentication failed. Please check your GitHub token''
              (Some 401) (Some JNull))"
    by (simp add: github_init_def always_def)
  from a b c show ?thesis by (simp add: request_of_def github_init_def)
qed

text \<open>
  C7, as stated, fails: for a status on which \<^verbatim>\<open>gh_request\<close> raises,
  \<^verbatim>\<open>is_user_member_of_org\<close> does not return false but raises. Here the API answers 403
  at every attempt.
\<close>

theorem is_user_member_of_org_raises_on_403:
  "snd (is_user_member_of_org (github_init ''token'' None) ''acme'' 42
      (always (Returns \<lparr>status_code = 403,
                 json = Parsed (JDict [(''message'', JStr ''Forbidden'')])\<rparr>)))
     = Inl (GithubAPIError ''Rate limit exceeded or insufficient permissions'' (Some 403)
              (Some (JDict [(''message'', JStr ''Forbidden'')])))
   \<and> snd (is_user_member_of_org (github_init ''token'' None) ''acme'' 42
      (always (Returns \<lparr>status_code = 403,
                 json = Parsed (JDict [(''message'', JStr ''Forbidden'')])\<rparr>)))
     \<noteq> Inr False"
proof -
  let ?self = "github_init ''token'' None"
  let ?res = "\<lparr>status_code = 403, json = Parsed (JDict [(''message'', JStr ''Forbidden'')])\<rparr>"
  have "snd (gh_request ?self (''/orgs/'' @ ''acme'' @ ''/members/'' @ str_int 42) ''GET'' (JDict [])
          (always (Returns ?res)))
      = Inl (GithubAPIError ''Rate limit exceeded or insufficient permissions'' (Some 403)
              (Some (JDict [(''message'', JStr ''Forbidden'')])))"
    by (simp add: gh_request_def github_init_def always_def upt_rec retry_wait_def try_body_def
        raise_with_json_def raise_GithubAPIError_def)
  then show ?thesis
    by (auto simp: is_user_member_of_org_def split: prod.splits)
qed

text \<open>
  C7, amended. \<^verbatim>\<open>is_user_member_of_org(org, user_id)\<close> sends only GET requests to
  \<^verbatim>\<open>/orgs/{org}/members/{user_id}\<close>, without a payload. When \<^verbatim>\<open>gh_request\<close> returns a
  response \<open>res\<close> (its status is then 404 or below 400), the result is the truth value of
  \<open>status_code res = 204\<close>: true for 204, false for 404 and for every other status that is
  returned. When \<^verbatim>\<open>gh_request\<close> raises, which it does for 401, for any other 4xx but 404,
  and for 403 or 5xx on the last attempt, \<^verbatim>\<open>is_user_member_of_org\<close> raises that same
  error. The last conjunct reads the result off the first response of the API, whenever that
  response is one \<^verbatim>\<open>gh_request\<close> returns.
\<close>

theorem is_user_member_of_org_returns_or_raises:
  "(\<forall>r \<in> set (requests_of (fst (is_user_member_of_org self org' user_id env))).
       method_arg r = ''GET''
     \<and> url r = ''https://api.github.com/orgs/'' @ org' @ ''/members/'' @ str_int user_id
     \<and> data r = None)
   \<and> (\<forall>res. snd (gh_request self (''/orgs/'' @ org' @ ''/members/'' @ str_int user_id) ''GET''
                   (JDict []) env) = Inr res \<longrightarrow>
         (status_code res = 404 \<or> status_code res < 400)
       \<and> snd (is_user_member_of_org self org' user_id env) = Inr (status_code res = 204))
   \<and> (\<forall>e. snd (gh_request self (''/orgs/'' @ org' @ ''/members/'' @ str_int user_id) ''GET''
                   (JDict []) env) = Inl e \<longrightarrow>
         snd (is_user_member_of_org self org' user_id env) = Inl e)
   \<and> (\<forall>res. 0 < max_retries self \<and> env 0 = Returns res
              \<and> (status_code res < 400 \<or> status_code res = 404) \<longrightarrow>
         snd (is_user_member_of_org self org' user_id env) = Inr (status_code res = 204))"
proof (intro conjI ballI allI impI)
  fix r assume "r \<in> set (requests_of (fst (is_user_member_of_org self org' user_id env)))"
  then have "r \<in> set (requests_of (fst (gh_request self
      (''/orgs/'' @ org' @ ''/members/'' @ str_int user_id) ''GET'' (JDict []) env)))"
    by (simp add: is_user_member_of_org_def split: prod.splits sum.splits)
  from gh_request_requests [OF this]
  show "method_arg r = ''GET''"
    and "url r = ''https://api.github.com/orgs/'' @ org' @ ''/members/'' @ str_int user_id"
    and "data r = None"
    by (simp_all add: request_of_def payload_def)
next
  fix res
  assume "snd (gh_request self (''/orgs/'' @ org' @ ''/members/'' @ str_int user_id) ''GET''
                   (JDict []) env) = Inr res"
  from attempts_returned [OF this [unfolded gh_request_def]]
  show "status_code res = 404 \<or> status_code res < 400" by blast
next
  fix res
  assume "snd (gh_request self (''/orgs/'' @ org' @ ''/members/'' @ str_int user_id) ''GET''
                   (JDict []) env) = Inr res"
  then show "snd (is_user_member_of_org self org' user_id env) = Inr (status_code res = 204)"
    by (auto simp: is_user_member_of_org_def split: prod.splits)
next
  fix e
  assume "snd (gh_request self (''/orgs/'' @ org' @ ''/members/'' @ str_int user_id) ''GET''
                   (JDict []) env) = Inl e"
  then show "snd (is_user_member_of_org self org' user_id env) = Inl e"
    by (auto simp: is_user_member_of_org_def split: prod.splits)
next
  fix res
  assume a: "0 < max_retries self \<and> env 0 = Returns res
              \<and> (status_code res < 400 \<or> status_code res = 404)"
  then have "gh_request self (''/orgs/'' @ org' @ ''/members/'' @ str_int user_id) ''GET'' (JDict []) env
      = ([Requested (request_of self (''/orgs/'' @ org' @ ''/members/'' @ str_int user_id) ''GET''
            (payload (JDict [])))], Inr res)"
    using gh_request_first_attempt_returned [where env=env and self=self and res=res]
    by blast
  then show "snd (is_user_member_of_org self org' user_id env) = Inr (status_code res = 204)"
    by (simp add: is_user_member_of_org_def)
qed

theorem is_user_member_of_org_returns_or_raises_witness:
  "is_user_member_of_org (github_init ''token'' None) ''acme'' 42
      (always (Returns \<lparr>status_code = 204, json = NotJSON ''Expecting value''\<rparr>))
     = ([Requested \<lparr>method_arg = ''GET'', url = ''https://api.github.com/orgs/acme/members/42'',
           headers = [(''Accept'', ''application/vnd.github+json''),
                      (''Authorization'', ''Bearer token''),
                      (''X-GitHub-Api-Version'', ''2022-11-28'')],
           data = None, timeout_arg = 30\<rparr>],
        Inr True)
   \<and> snd (is_user_member_of_org (github_init ''token'' None) ''acme'' 42
      (always (Returns \<lparr>status_code = 404, json = Parsed JNull\<rparr>))) = Inr False
   \<and> snd (is_user_member_of_org (github_init ''token'' None) ''acme'' 42
      (always (Returns \<lparr>status_code = 302, json = Parsed JNull\<rparr>))) = Inr False"
proof -
  let ?self = "github_init ''token'' None"
  let ?m = "\<lparr>status_code = 204, json = NotJSON ''Expecting value''\<rparr>"
  have g: "gh_request ?self (''/orgs/'' @ ''acme'' @ ''/members/'' @ str_int 42) ''GET'' (JDict [])
        (always (Returns ?m))
      = ([Requested (request_of ?self ''/orgs/acme/members/42'' ''GET'' None)], Inr ?m)"
    using gh_request_first_attempt_returned [where env="always (Returns ?m)" and self="?self"
        and res="?m" and path="''/orgs/'' @ ''acme'' @ ''/members/'' @ str_int 42"
        and meth="''GET''" and d="JDict []"]
    by (simp add: github_init_def always_def payload_def str_int_42)
  have a: "is_user_member_of_org ?self ''acme'' 42 (always (Returns ?m))
      = ([Requested (request_of ?self ''/orgs/acme/members/42'' ''GET'' None)], Inr True)"
    using is_user_member_of_org_returns_or_raises [of ?self "''acme''" 42 "always (Returns ?m)"] g
    by (simp add: is_user_member_of_org_def)
  from a
    is_user_member_of_org_returns_or_raises [of "github_init ''token'' None" "''acme''" 42
      "always (Returns \<lparr>status_code = 404, json = Parsed JNull\<rparr>)"]
    is_user_member_of_org_returns_or_raises [of "github_init ''token'' None" "''acme''" 42
      "always (Returns \<lparr>status_code = 302, json = Parsed JNull\<rparr>)"]
  show ?thesis
    by (simp add: github_init_def always_def request_of_def)
qed

text \<open>
  C8. \<^verbatim>\<open>list_teams(org)\<close> on the response \<open>res\<close> that \<^verbatim>\<open>gh_request\<close> hands back. With status
  200 line 162 evaluates \<^verbatim>\<open>len(res)\<close> on the response object and raises \<^verbatim>\<open>TypeError\<close>:
  the trace is that of the request alone, no team is printed, whatever the JSON array holds.
  With any other status it prints "Something unexpected happened" and returns.
\<close>

theorem list_teams_status_200_raises:
  assumes "snd (gh_request self (''/orgs/'' @ org' @ ''/teams'') ''GET'' (JDict []) env) = Inr res"
  shows "(status_code res = 200 \<longrightarrow>
            list_teams self org' env
              = (fst (gh_request self (''/orgs/'' @ org' @ ''/teams'') ''GET'' (JDict []) env),
                 Inl TypeError))
       \<and> (status_code res \<noteq> 200 \<longrightarrow>
            list_teams self org' env
              = (fst (gh_request self (''/orgs/'' @ org' @ ''/teams'') ''GET'' (JDict []) env)
                   @ [Printed ''Something unexpected happened''],
                 Inr ()))"
  using assms by (auto simp: list_teams_def split: prod.splits)

theorem list_teams_status_200_raises_witness:
  "list_teams (github_init ''token'' None) ''acme''
      (always (Returns \<lparr>status_code = 200,
         json = Parsed (JList [JDict [(''name'', JStr ''core''), (''id'', JInt 7)]])\<rparr>))
     = ([Requested (request_of (github_init ''token'' None) ''/orgs/acme/teams'' ''GET'' None)],
        Inl TypeError)"
proof -
  let ?self = "github_init ''token'' None"
  let ?ok = "\<lparr>status_code = 200,
              json = Parsed (JList [JDict [(''name'', JStr ''core''), (''id'', JInt 7)]])\<rparr>"
  have g: "gh_request ?self (''/orgs/'' @ ''acme'' @ ''/teams'') ''GET'' (JDict []) (always (Returns ?ok))
      = ([Requested (request_of ?self ''/orgs/acme/teams'' ''GET'' None)], Inr ?ok)"
    using gh_request_first_attempt_returned [where env="always (Returns ?ok)" and self="?self"
        and res="?ok" and path="''/orgs/'' @ ''acme'' @ ''/teams''" and meth="''GET''" and d="JDict []"]
    by (simp add: github_init_def always_def payload_def)
  then have "snd (gh_request ?self (''/orgs/'' @ ''acme'' @ ''/teams'') ''GET'' (JDict [])
      (always (Returns ?ok))) = Inr ?ok"
    by simp
  from list_teams_status_200_raises [OF this] g show ?thesis by simp
qed

text \<open>
  C9. Every request in the trace of \<^verbatim>\<open>gh_request\<close> carries exactly the headers
  \<^verbatim>\<open>Accept: application/vnd.github+json\<close>, \<^verbatim>\<open>Authorization: Bearer <auth>\<close> and
  \<^verbatim>\<open>X-GitHub-Api-Version: 2022-11-28\<close>, goes to the base URL followed by the path, and has
  no payload when the data is the empty dict and the JSON text of the data otherwise. A
  call with a positive \<open>max_retries\<close> sends at least one request. The requests of the four
  endpoint helpers are those of their \<^verbatim>\<open>gh_request\<close> call.
\<close>

theorem gh_request_headers_and_payload:
  "(\<forall>r \<in> set (requests_of (fst (gh_request self path meth d env))).
       headers r = [(''Accept'', ''application/vnd.github+json''),
                    (''Authorization'', ''Bearer '' @ auth self),
                    (''X-GitHub-Api-Version'', ''2022-11-28'')]
     \<and> url r = ''https://api.github.com'' @ path
     \<and> method_arg r = meth
     \<and> data r = (if d = JDict [] then None else Some (json_dumps d)))
   \<and> (0 < max_retries self \<longrightarrow> requests_of (fst (gh_request self path meth d env)) \<noteq> [])
   \<and> requests_of (fst (invite_user_org self org' user teams role env))
       = requests_of (fst (gh_request self (''/orgs/'' @ org' @ ''/invitations'') ''POST''
           (JDict [(''invitee_id'', JInt user), (''role'', JStr role), (''team_ids'', JList teams)]) env))
   \<and> requests_of (fst (get_user_id self name env))
       = requests_of (fst (gh_request self (''/users/'' @ name) ''GET'' (JDict []) env))
   \<and> requests_of (fst (list_teams self org' env))
       = requests_of (fst (gh_request self (''/orgs/'' @ org' @ ''/teams'') ''GET'' (JDict []) env))
   \<and> requests_of (fst (is_user_member_of_org self org' user env))
       = requests_of (fst (gh_request self (''/orgs/'' @ org' @ ''/members/'' @ str_int user) ''GET''
           (JDict []) env))"
proof (intro conjI ballI impI)
  fix r
  assume "r \<in> set (requests_of (fst (gh_request self path meth d env)))"
  from gh_request_requests [OF this]
  show "headers r = [(''Accept'', ''application/vnd.github+json''),
                    (''Authorization'', ''Bearer '' @ auth self),
                    (''X-GitHub-Api-Version'', ''2022-11-28'')]"
    and "url r = ''https://api.github.com'' @ path"
    and "method_arg r = meth"
    and "data r = (if d = JDict [] then None else Some (json_dumps d))"
    by (simp_all add: request_of_def payload_def)
next
  assume "0 < max_retries self"
  then have "[0..<nat (max_retries self)] = 0 # [1..<nat (max_retries self)]"
    by (simp add: upt_conv_Cons)
  then show "requests_of (fst (gh_request self path meth d env)) \<noteq> []"
    by (simp add: gh_request_def before_attempt_def)
next
  show "requests_of (fst (invite_user_org self org' user teams role env))
       = requests_of (fst (gh_request self (''/orgs/'' @ org' @ ''/invitations'') ''POST''
           (JDict [(''invitee_id'', JInt user), (''role'', JStr role), (''team_ids'', JList teams)]) env))"
    by (simp add: invite_user_org_def)
next
  show "requests_of (fst (get_user_id self name env))
       = requests_of (fst (gh_request self (''/users/'' @ name) ''GET'' (JDict []) env))"
    by (auto simp: get_user_id_def split: prod.splits sum.splits parsed.splits)
next
  show "requests_of (fst (list_teams self org' env))
       = requests_of (fst (gh_request self (''/orgs/'' @ org' @ ''/teams'') ''GET'' (JDict []) env))"
    by (simp add: list_teams_def split: prod.splits sum.splits)
next
  show "requests_of (fst (is_user_member_of_org self org' user env))
       = requests_of (fst (gh_request self (''/orgs/'' @ org' @ ''/members/'' @ str_int user) ''GET''
           (JDict []) env))"
    by (simp add: is_user_member_of_org_def split: prod.splits sum.splits)
qed

theorem gh_request_headers_and_payload_witness:
  "list_all (\<lambda>r. headers r = [(''Accept'', ''application/vnd.github+json''),
                              (''Authorization'', ''Bearer token''),
                              (''X-GitHub-Api-Version'', ''2022-11-28'')]
                \<and> data r = None)
     (requests_of (fst (gh_request (github_init ''token'' None) ''/users/octocat'' ''GET'' (JDict [])
        (always (Returns \<lparr>status_code = 503, json = Parsed JNull\<rparr>)))))
   \<and> length (requests_of (fst (gh_request (github_init ''token'' None) ''/users/octocat'' ''GET''
        (JDict []) (always (Returns \<lparr>status_code = 503, json = Parsed JNull\<rparr>))))) = 3
   \<and> list_all (\<lambda>r. data r = Some (json_dumps (JDict [(''k'', JInt 1)])))
     (requests_of (fst (gh_request (github_init ''token'' None) ''/x'' ''POST'' (JDict [(''k'', JInt 1)])
        (always (Returns \<lparr>status_code = 201, json = Parsed JNull\<rparr>)))))"
proof -
  let ?self = "github_init ''token'' None"
  let ?env = "always (Returns \<lparr>status_code = 503, json = Parsed JNull\<rparr>)"
  let ?env2 = "always (Returns \<lparr>status_code = 201, json = Parsed JNull\<rparr>)"
  have a: "list_all (\<lambda>r. headers r = [(''Accept'', ''application/vnd.github+json''),
                              (''Authorization'', ''Bearer token''),
                              (''X-GitHub-Api-Version'', ''2022-11-28'')]
                \<and> data r = None)
     (requests_of (fst (gh_request ?self ''/users/octocat'' ''GET'' (JDict []) ?env)))"
    using gh_request_headers_and_payload [of ?self "''/users/octocat''" "''GET''" "JDict []" ?env]
    unfolding list_all_iff by (simp add: github_init_def)
  have b: "length (requests_of (fst (gh_request ?self ''/users/octocat'' ''GET'' (JDict []) ?env))) = 3"
    by (simp add: gh_request_def github_init_def always_def upt_rec retry_wait_def
        before_attempt_def try_body_def raise_with_json_def raise_GithubAPIError_def)
  have c: "list_all (\<lambda>r. data r = Some (json_dumps (JDict [(''k'', JInt 1)])))
     (requests_of (fst (gh_request ?self ''/x'' ''POST'' (JDict [(''k'', JInt 1)]) ?env2)))"
    using gh_request_headers_and_payload [of ?self "''/x''" "''POST''" "JDict [(''k'', JInt 1)]" ?env2]
    unfolding list_all_iff by simp
  from a b c show ?thesis by blast
qed

text \<open>
  C10. A response that \<^verbatim>\<open>gh_request\<close> returns has status 404 or a status below 400, and
  is the response the API gave at one of the attempts. So no response with status 401, 403,
  another 4xx or a 5xx is ever returned as a value.
\<close>

theorem gh_request_returns_only_404_or_below_400:
  assumes "snd (gh_request self path meth d env) = Inr res"
  shows "(status_code res = 404 \<or> status_code res < 400)
     \<and> (\<exists>k. int k < max_retries self \<and> env k = Returns res)"
proof -
  from attempts_returned [OF assms [unfolded gh_request_def]]
  obtain k where st: "status_code res = 404 \<or> status_code res < 400"
    and k: "k < nat (max_retries self)" "env k = Returns res"
    by auto
  from k(1) have "int k < max_retries self" by linarith
  with st k(2) show ?thesis by blast
qed

theorem gh_request_returns_only_404_or_below_400_witness:
  "snd (gh_request (github_init ''token'' None) ''/orgs/acme/teams'' ''GET'' (JDict [])
      (\<lambda>i. if i = 0 then Returns \<lparr>status_code = 503, json = Parsed JNull\<rparr>
            else Returns \<lparr>status_code = 200, json = Parsed (JList [])\<rparr>))
     = Inr \<lparr>status_code = 200, json = Parsed (JList [])\<rparr>
   \<and> (status_code \<lparr>status_code = 200, json = Parsed (JList [])\<rparr> = 404
        \<or> status_code \<lparr>status_code = 200, json = Parsed (JList [])\<rparr> < 400)"
proof -
  let ?env = "\<lambda>i::nat. if i = 0 then Returns \<lparr>status_code = 503, json = Parsed JNull\<rparr>
            else Returns \<lparr>status_code = 200, json = Parsed (JList [])\<rparr>"
  have r: "snd (gh_request (github_init ''token'' None) ''/orgs/acme/teams'' ''GET'' (JDict []) ?env)
     = Inr \<lparr>status_code = 200, json = Parsed (JList [])\<rparr>"
    by (simp add: gh_request_def github_init_def upt_rec retry_wait_def try_body_def)
  from gh_request_returns_only_404_or_below_400 [OF r] r show ?thesis by simp
qed

end
